theory Spec2Isabelle
  imports Main
begin

section \<open>A URL shortener backed by a spreadsheet: cache and path resolver\<close>

text \<open>
  The development embeds \<^verbatim>\<open>main.go\<close> and \<^verbatim>\<open>sheetprovider.go\<close>.
  Go strings are byte sequences and are modelled as \<^typ>\<open>string\<close>. Pointers to
  \<^verbatim>\<open>url.URL\<close> objects are addresses into an explicit store, because
  \<^verbatim>\<open>prepRedirect\<close> writes through the pointer it is given. The outside world (the
  clock, the files and the spreadsheet service) is a script of answers that the code
  consumes one by one. Log output is not modelled, and neither is the read/write lock:
  the model runs one request at a time.
\<close>

subsection \<open>Outcomes of a call\<close>

text \<open>
  A Go call either returns, or panics (\<^verbatim>\<open>index out of range\<close>), or ends the process
  (\<^verbatim>\<open>log.Fatalf\<close> prints and calls \<^verbatim>\<open>os.Exit(1)\<close>).
\<close>

datatype 'a exec = Return 'a | Panic | Exit

datatype error = Errorf string

subsection \<open>The functions of package \<^verbatim>\<open>strings\<close> that the code calls\<close>

definition HasPrefix :: "string \<Rightarrow> string \<Rightarrow> bool" where
  "HasPrefix s p = (take (length p) s = p)"

definition HasSuffix :: "string \<Rightarrow> string \<Rightarrow> bool" where
  "HasSuffix s x = (length x \<le> length s \<and> drop (length s - length x) s = x)"

definition TrimPrefix :: "string \<Rightarrow> string \<Rightarrow> string" where
  "TrimPrefix s p = (if HasPrefix s p then drop (length p) s else s)"

text \<open>
  \<^verbatim>\<open>strings.Split(s, "/")\<close>: the separator of the source is the one-byte string
  \<^verbatim>\<open>"/"\<close>, so the model takes a byte. The result is never empty:
  splitting the empty string gives one empty segment.
\<close>

fun Split :: "string \<Rightarrow> char \<Rightarrow> string list" where
  "Split [] sep = [[]]"
| "Split (c # cs) sep =
     (if c = sep then [] # Split cs sep
      else (case Split cs sep of
              [] \<Rightarrow> [[c]]
            | seg # segs \<Rightarrow> (c # seg) # segs))"

fun Join :: "string list \<Rightarrow> string \<Rightarrow> string" where
  "Join [] sep = []"
| "Join [x] sep = x"
| "Join (x # y # ys) sep = x @ sep @ Join (y # ys) sep"

subsection \<open>URLs, query values and the library functions taken as parameters\<close>

text \<open>
  Of \<^verbatim>\<open>url.URL\<close> the code reads and writes \<^verbatim>\<open>Path\<close> and \<^verbatim>\<open>RawQuery\<close>;
  scheme and host are kept so that the examples of the specification can be written down.
\<close>

record url =
  Scheme :: string
  Host :: string
  Path :: string
  RawQuery :: string

text \<open>\<^verbatim>\<open>url.Values\<close> is \<^verbatim>\<open>map[string][]string\<close>; the keys are kept in a list so that
  \<^verbatim>\<open>for k := range query\<close> can run over them.\<close>

type_synonym Values = "(string \<times> string list) list"

definition Values_Get :: "Values \<Rightarrow> string \<Rightarrow> string" where
  "Values_Get vs k =
     (case map_of vs k of
        None \<Rightarrow> []
      | Some [] \<Rightarrow> []
      | Some (x # _) \<Rightarrow> x)"

definition Values_Add :: "Values \<Rightarrow> string \<Rightarrow> string \<Rightarrow> Values" where
  "Values_Add vs k x =
     (case map_of vs k of
        None \<Rightarrow> vs @ [(k, [x])]
      | Some old \<Rightarrow> map (\<lambda>(k', xs). if k' = k then (k', xs @ [x]) else (k', xs)) vs)"

text \<open>
  The standard library's Unicode lowercasing, URL parser, query parser and query encoder
  are not code of this repository. The embedded functions take them as a parameter, so
  every theorem below holds whatever these four functions compute.
\<close>

record stdlib =
  strings_ToLower :: "string \<Rightarrow> string"
  url_Parse :: "string \<Rightarrow> error + url"
  url_ParseQuery :: "string \<Rightarrow> Values"
  Values_Encode :: "Values \<Rightarrow> string"

text \<open>\<^verbatim>\<open>u.Query()\<close> parses \<^verbatim>\<open>u.RawQuery\<close> afresh on every call.\<close>

definition URL_Query :: "stdlib \<Rightarrow> url \<Rightarrow> Values" where
  "URL_Query lib u = url_ParseQuery lib (RawQuery u)"

subsection \<open>The store of URL objects and the shortcut map\<close>

text \<open>
  An address is an index into the list of allocated \<^verbatim>\<open>url.URL\<close> objects; a
  successful \<^verbatim>\<open>url.Parse\<close> allocates a new one at the end. A \<^verbatim>\<open>nil\<close> pointer is
  \<^term>\<open>None\<close>. \<^verbatim>\<open>URLMap\<close> is \<^verbatim>\<open>map[string]*url.URL\<close>.
\<close>

type_synonym addr = nat
type_synonym heap = "url list"
type_synonym URLMap = "string \<rightharpoonup> addr"

text \<open>A cell of a raw row is a dynamically typed value: a string or something else.\<close>

datatype cell = Str string | NonStr

type_synonym row = "cell list"

text \<open>
  \<^verbatim>\<open>urlMap\<close>: the loop over the rows, with the map under construction and the store
  as accumulators. Every \<^verbatim>\<open>continue\<close> of the source is a branch that goes on with
  the accumulators unchanged.
\<close>

fun urlMap_rows :: "stdlib \<Rightarrow> row list \<Rightarrow> heap \<Rightarrow> URLMap \<Rightarrow> heap \<times> URLMap" where
  "urlMap_rows lib [] h out = (h, out)"
| "urlMap_rows lib (r # rest) h out =
     (if length r < 2 then urlMap_rows lib rest h out
      else (case r ! 0 of
              NonStr \<Rightarrow> urlMap_rows lib rest h out
            | Str k \<Rightarrow>
                if k = [] then urlMap_rows lib rest h out
                else (case r ! 1 of
                        NonStr \<Rightarrow> urlMap_rows lib rest h out
                      | Str v \<Rightarrow>
                          if v = [] then urlMap_rows lib rest h out
                          else (let k' = strings_ToLower lib k in
                                case url_Parse lib v of
                                  Inl err \<Rightarrow> urlMap_rows lib rest h out
                                | Inr u \<Rightarrow> urlMap_rows lib rest (h @ [u]) (out(k' \<mapsto> length h))))))"

definition urlMap :: "stdlib \<Rightarrow> row list \<Rightarrow> heap \<Rightarrow> heap \<times> URLMap" where
  "urlMap lib rows h = urlMap_rows lib rows h Map.empty"

subsection \<open>The outside world\<close>

text \<open>
  What the environment answers during one call of \<^verbatim>\<open>sheetsProvider.Query\<close>: one field
  for each call that leaves the program, in the order in which the code makes them. A
  field of type \<^typ>\<open>error option\<close> is the \<^verbatim>\<open>err\<close> that the call returns
  (\<^term>\<open>None\<close> for \<^verbatim>\<open>nil\<close>); the values that come with it (file contents, the OAuth
  configuration, the token, the client) do not influence the control flow and are left out.
\<close>

record sheets_io =
  ReadFile_credentials :: "error option"
  ConfigFromJSON :: "error option"
  Open_token :: "error option"
  Decode_token :: "error option"
  Scan_authCode :: "error option"
  Exchange_code :: "error option"
  OpenFile_token :: "error option"
  NewService :: "error option"
  Values_Get_Do :: "error + row list"

text \<open>
  The world is a script: \<open>clock\<close> lists the successive readings of the clock and
  \<open>clock_reads\<close> counts the readings taken so far; \<open>provider\<close> lists the answers
  to the successive calls of \<^verbatim>\<open>Query\<close> and \<open>queries\<close> counts the calls made so far.
  Times and durations are integers, in nanoseconds.
\<close>

record world =
  clock_reads :: nat
  clock :: "nat \<Rightarrow> int"
  queries :: nat
  provider :: "nat \<Rightarrow> sheets_io"

definition time_Now :: "world \<Rightarrow> int \<times> world" where
  "time_Now w = (clock w (clock_reads w), w\<lparr>clock_reads := Suc (clock_reads w)\<rparr>)"

definition maxDuration :: int where
  "maxDuration = 2 ^ 63 - 1"

definition minDuration :: int where
  "minDuration = - (2 ^ 63)"

text \<open>\<^verbatim>\<open>Time.Sub\<close> gives a 64-bit duration and saturates at its bounds.\<close>

definition time_Sub :: "int \<Rightarrow> int \<Rightarrow> int" where
  "time_Sub t u =
     (if t - u > maxDuration then maxDuration
      else if t - u < minDuration then minDuration
      else t - u)"

text \<open>\<^verbatim>\<open>time.Since(t)\<close> is \<^verbatim>\<open>time.Now().Sub(t)\<close>.\<close>

definition time_Since :: "int \<Rightarrow> world \<Rightarrow> int \<times> world" where
  "time_Since t w = (let (now, w') = time_Now w in (time_Sub now t, w'))"

subsection \<open>The provider: \<^verbatim>\<open>sheetprovider.go\<close> and the token helpers of \<^verbatim>\<open>main.go\<close>\<close>

record sheetsProvider =
  googleSheetsID :: string
  sheetName :: string

definition tokenFromFile :: "sheets_io \<Rightarrow> error option" where
  "tokenFromFile io =
     (case Open_token io of
        Some err \<Rightarrow> Some err
      | None \<Rightarrow> Decode_token io)"

definition getTokenFromWeb :: "sheets_io \<Rightarrow> unit exec" where
  "getTokenFromWeb io =
     (case Scan_authCode io of
        Some err \<Rightarrow> Exit
      | None \<Rightarrow>
          (case Exchange_code io of
             Some err \<Rightarrow> Exit
           | None \<Rightarrow> Return ()))"

definition saveToken :: "sheets_io \<Rightarrow> unit exec" where
  "saveToken io =
     (case OpenFile_token io of
        Some err \<Rightarrow> Exit
      | None \<Rightarrow> Return ())"

definition getClient :: "sheets_io \<Rightarrow> unit exec" where
  "getClient io =
     (case tokenFromFile io of
        Some err \<Rightarrow>
          (case getTokenFromWeb io of
             Return _ \<Rightarrow> saveToken io
           | Panic \<Rightarrow> Panic
           | Exit \<Rightarrow> Exit)
      | None \<Rightarrow> Return ())"

text \<open>
  \<^verbatim>\<open>Query\<close> returns an error value for a missing identifier or sheet name only; every
  failure of a call that leaves the program goes to \<^verbatim>\<open>log.Fatalf\<close>.
\<close>

definition Query :: "sheetsProvider \<Rightarrow> sheets_io \<Rightarrow> (error + row list) exec" where
  "Query s io =
     (if googleSheetsID s = [] then Return (Inl (Errorf ''GOOGLE_SHEET_ID not set''))
      else if sheetName s = [] then Return (Inl (Errorf ''SHEET_NAME not set''))
      else (case ReadFile_credentials io of
              Some err \<Rightarrow> Exit
            | None \<Rightarrow>
                (case ConfigFromJSON io of
                   Some err \<Rightarrow> Exit
                 | None \<Rightarrow>
                     (case getClient io of
                        Panic \<Rightarrow> Panic
                      | Exit \<Rightarrow> Exit
                      | Return _ \<Rightarrow>
                          (case NewService io of
                             Some err \<Rightarrow> Exit
                           | None \<Rightarrow>
                               (case Values_Get_Do io of
                                  Inl err \<Rightarrow> Exit
                                | Inr values \<Rightarrow> Return (Inr values)))))))"

text \<open>The call \<^verbatim>\<open>c.sheet.Query()\<close>: it takes the next answer of the script.\<close>

definition sheet_Query :: "sheetsProvider \<Rightarrow> world \<Rightarrow> (error + row list) exec \<times> world" where
  "sheet_Query s w = (Query s (provider w (queries w)), w\<lparr>queries := Suc (queries w)\<rparr>)"

subsection \<open>The cache: \<^verbatim>\<open>cachedURLMap\<close>\<close>

record cachedURLMap =
  v :: URLMap
  lastUpdate :: int
  ttl :: int
  sheet :: sheetsProvider

text \<open>The memory of the server: the URL objects and the cache that \<^verbatim>\<open>server.db\<close> points to.\<close>

record memory =
  urls :: heap
  db :: cachedURLMap

definition Refresh :: "stdlib \<Rightarrow> memory \<Rightarrow> world \<Rightarrow> (error option \<times> memory \<times> world) exec" where
  "Refresh lib m w =
     (let c = db m; (since, w1) = time_Since (lastUpdate c) w in
      if since \<le> ttl c then Return (None, m, w1)
      else (let (q, w2) = sheet_Query (sheet c) w1 in
            case q of
              Panic \<Rightarrow> Panic
            | Exit \<Rightarrow> Exit
            | Return (Inl err) \<Rightarrow> Return (Some err, m, w2)
            | Return (Inr rows) \<Rightarrow>
                (let (h', out) = urlMap lib rows (urls m);
                     (now, w3) = time_Now w2
                 in Return (None, \<lparr>urls = h', db = c\<lparr>v := out, lastUpdate := now\<rparr>\<rparr>, w3))))"

text \<open>\<^verbatim>\<open>Get\<close> returns \<^verbatim>\<open>(nil, err)\<close> as \<open>Inl err\<close> and \<^verbatim>\<open>(c.v[query], nil)\<close> as
  \<open>Inr\<close> of the pointer, which is \<^term>\<open>None\<close> when the key is not in the map.\<close>

definition Get :: "stdlib \<Rightarrow> string \<Rightarrow> memory \<Rightarrow> world \<Rightarrow> ((error + addr option) \<times> memory \<times> world) exec" where
  "Get lib query m w =
     (case Refresh lib m w of
        Panic \<Rightarrow> Panic
      | Exit \<Rightarrow> Exit
      | Return (Some err, m', w') \<Rightarrow> Return (Inl err, m', w')
      | Return (None, m', w') \<Rightarrow> Return (Inr (v (db m') query), m', w'))"

subsection \<open>The resolver: \<^verbatim>\<open>prepRedirect\<close> and \<^verbatim>\<open>findRedirect\<close>\<close>

text \<open>
  \<^verbatim>\<open>prepRedirect\<close> works on the object that \<open>base\<close> points to and returns the same
  pointer. The values \<open>qs\<close>, to which the request's parameters are added, are not the
  ones that are encoded: the source encodes a fresh \<^verbatim>\<open>base.Query()\<close>. An address
  outside the store does not arise from the code (every pointer in the map was allocated
  by \<^verbatim>\<open>urlMap\<close>); the model makes it a panic, as a \<^verbatim>\<open>nil\<close> dereference would be.
\<close>

definition prepRedirect :: "stdlib \<Rightarrow> addr \<Rightarrow> string \<Rightarrow> Values \<Rightarrow> heap \<Rightarrow> (addr \<times> heap) exec" where
  "prepRedirect lib base addPath query h =
     (if base < length h then
        (let u = h ! base;
             u1 = (if addPath \<noteq> [] then
                     (let u' = (if \<not> HasSuffix (Path u) ''/'' then u\<lparr>Path := Path u @ ''/''\<rparr> else u)
                      in u'\<lparr>Path := Path u' @ addPath\<rparr>)
                   else u);
             qs = fold (\<lambda>k qs. Values_Add qs k (Values_Get query k)) (map fst query) (URL_Query lib u1);
             u2 = u1\<lparr>RawQuery := Values_Encode lib (URL_Query lib u1)\<rparr>
         in Return (base, h[base := u2]))
      else Panic)"

text \<open>
  The loop of \<^verbatim>\<open>findRedirect\<close>. After a miss the source first shortens the slice,
  \<^verbatim>\<open>segments = segments[:len(segments)-1]\<close>, and then reads
  \<^verbatim>\<open>segments[len(segments)-1]\<close> of the shortened slice; when that slice is empty the
  index is \<open>-1\<close> and the read panics.
\<close>

function findRedirect_loop ::
  "stdlib \<Rightarrow> url \<Rightarrow> string list \<Rightarrow> string list \<Rightarrow> memory \<Rightarrow> world
     \<Rightarrow> ((error + addr option) \<times> memory \<times> world) exec" where
  "findRedirect_loop lib req segments discard m w =
     (if length segments > 0 then
        (case Get lib (Join segments ''/'') m w of
           Panic \<Rightarrow> Panic
         | Exit \<Rightarrow> Exit
         | Return (Inl err, m1, w1) \<Rightarrow> Return (Inl err, m1, w1)
         | Return (Inr (Some a), m1, w1) \<Rightarrow>
             (case prepRedirect lib a (Join discard ''/'') (URL_Query lib req) (urls m1) of
                Panic \<Rightarrow> Panic
              | Exit \<Rightarrow> Exit
              | Return (p, h') \<Rightarrow> Return (Inr (Some p), m1\<lparr>urls := h'\<rparr>, w1))
         | Return (Inr None, m1, w1) \<Rightarrow>
             (let segments' = take (length segments - 1) segments in
              if length segments' = 0 then Panic
              else findRedirect_loop lib req segments'
                     (segments' ! (length segments' - 1) # discard) m1 w1))
      else Return (Inr None, m, w))"
  by pat_completeness auto
termination
  by (relation "measure (\<lambda>(lib, req, segments, discard, m, w). length segments)") auto

declare findRedirect_loop.simps [simp del]

definition findRedirect ::
  "stdlib \<Rightarrow> url \<Rightarrow> memory \<Rightarrow> world \<Rightarrow> ((error + addr option) \<times> memory \<times> world) exec" where
  "findRedirect lib req m w =
     (let path = TrimPrefix (Path req) ''/'';
          segments = Split path CHR ''/''
      in findRedirect_loop lib req segments [] m w)"

subsection \<open>An instance of the library and of the world, for running the code\<close>

text \<open>
  To evaluate the code on concrete requests the four library functions need values.
  The instance below computes what Go computes on the inputs that the examples use:
  ASCII shortcuts, URLs of the form \<^verbatim>\<open>scheme://host/path?query\<close>, and queries without
  escapes whose keys are already in order. A string that starts with a colon is rejected,
  as \<^verbatim>\<open>url.Parse\<close> rejects it (\<^verbatim>\<open>missing protocol scheme\<close>).
\<close>

definition ascii_lower :: "char \<Rightarrow> char" where
  "ascii_lower c =
     (case map_of (zip ''ABCDEFGHIJKLMNOPQRSTUVWXYZ'' ''abcdefghijklmnopqrstuvwxyz'') c of
        None \<Rightarrow> c
      | Some l \<Rightarrow> l)"

definition ascii_ToLower :: "string \<Rightarrow> string" where
  "ascii_ToLower s = map ascii_lower s"

fun split_at :: "char \<Rightarrow> string \<Rightarrow> string \<times> string option" where
  "split_at d [] = ([], None)"
| "split_at d (c # cs) =
     (if c = d then ([], Some cs)
      else (case split_at d cs of (a, b) \<Rightarrow> (c # a, b)))"

definition plain_Parse :: "string \<Rightarrow> error + url" where
  "plain_Parse s =
     (case split_at CHR '':'' s of
        ([], _) \<Rightarrow> Inl (Errorf ''missing protocol scheme'')
      | (sch, None) \<Rightarrow> Inl (Errorf ''unsupported'')
      | (sch, Some rest) \<Rightarrow>
          (let (hp, q) = split_at CHR ''?'' (TrimPrefix rest ''//'');
               (hst, p) = split_at CHR ''/'' hp
           in Inr \<lparr>Scheme = sch, Host = hst,
                   Path = (case p of None \<Rightarrow> [] | Some p' \<Rightarrow> CHR ''/'' # p'),
                   RawQuery = (case q of None \<Rightarrow> [] | Some q' \<Rightarrow> q')\<rparr>))"

definition plain_ParseQuery :: "string \<Rightarrow> Values" where
  "plain_ParseQuery s =
     fold (\<lambda>kv vs. if kv = [] then vs
                    else (case split_at CHR ''='' kv of
                            (k, None) \<Rightarrow> Values_Add vs k []
                          | (k, Some x) \<Rightarrow> Values_Add vs k x))
          (Split s CHR ''&'') []"

definition plain_Encode :: "Values \<Rightarrow> string" where
  "plain_Encode vs = Join (concat (map (\<lambda>(k, xs). map (\<lambda>x. k @ ''='' @ x) xs) vs)) ''&''"



definition example_lib :: stdlib where
  "example_lib =
     \<lparr>strings_ToLower = ascii_ToLower, url_Parse = plain_Parse,
      url_ParseQuery = plain_ParseQuery, Values_Encode = plain_Encode\<rparr>"

text \<open>A provider with both settings present, and one with none.\<close>

definition configured :: sheetsProvider where
  "configured = \<lparr>googleSheetsID = ''sheet-id'', sheetName = ''links''\<rparr>"

definition unconfigured :: sheetsProvider where
  "unconfigured = \<lparr>googleSheetsID = [], sheetName = []\<rparr>"

text \<open>The spreadsheet service answers with the given rows; or the request to it fails.\<close>

definition sheets_ok :: "row list \<Rightarrow> sheets_io" where
  "sheets_ok rows =
     \<lparr>ReadFile_credentials = None, ConfigFromJSON = None, Open_token = None,
      Decode_token = None, Scan_authCode = None, Exchange_code = None,
      OpenFile_token = None, NewService = None, Values_Get_Do = Inr rows\<rparr>"

definition sheets_down :: sheets_io where
  "sheets_down = (sheets_ok [])\<lparr>Values_Get_Do := Inl (Errorf ''connection refused'')\<rparr>"

text \<open>A world whose clock shows \<open>t\<close>, then \<open>t + 1\<close>, and so on, and whose spreadsheet
  service always gives the same answer.\<close>

definition world_at :: "int \<Rightarrow> sheets_io \<Rightarrow> world" where
  "world_at t io = \<lparr>clock_reads = 0, clock = (\<lambda>i. t + int i), queries = 0, provider = (\<lambda>i. io)\<rparr>"

text \<open>The five seconds of \<^verbatim>\<open>main\<close>, in nanoseconds.\<close>

definition five_seconds :: int where
  "five_seconds = 5000000000"

text \<open>A server whose cache holds one shortcut, refreshed at time \<open>1000\<close>.\<close>

definition one_shortcut :: "string \<Rightarrow> url \<Rightarrow> sheetsProvider \<Rightarrow> memory" where
  "one_shortcut k u p =
     \<lparr>urls = [u],
      db = \<lparr>v = [k \<mapsto> 0], lastUpdate = 1000, ttl = five_seconds, sheet = p\<rparr>\<rparr>"

definition example_com :: "string \<Rightarrow> url" where
  "example_com p = \<lparr>Scheme = ''https'', Host = ''example.com'', Path = p, RawQuery = []\<rparr>"

text \<open>The server as \<^verbatim>\<open>main\<close> creates it: an empty map and the zero time, which lies in
  the year 1, far before any reading of the clock.\<close>

definition zero_time :: int where
  "zero_time = - 62135596800000000000"

definition initial_memory :: "sheetsProvider \<Rightarrow> memory" where
  "initial_memory p =
     \<lparr>urls = [], db = \<lparr>v = Map.empty, lastUpdate = zero_time, ttl = five_seconds, sheet = p\<rparr>\<rparr>"

text \<open>A request URL with the given path and raw query.\<close>

definition request :: "string \<Rightarrow> string \<Rightarrow> url" where
  "request p q = \<lparr>Scheme = [], Host = [], Path = p, RawQuery = q\<rparr>"

subsection \<open>The row rules in the words of the specification\<close>

text \<open>
  A row is valid when it has at least two columns, its first two columns are non-empty
  strings and the second parses as a URL; a valid row contributes the lowercased
  shortcut and the parsed URL.
\<close>

definition row_entry :: "stdlib \<Rightarrow> row \<Rightarrow> (string \<times> url) option" where
  "row_entry lib r =
     (case r of
        Str k # Str d # _ \<Rightarrow>
          (if k \<noteq> [] \<and> d \<noteq> [] then
             (case url_Parse lib d of
                Inr u \<Rightarrow> Some (strings_ToLower lib k, u)
              | Inl _ \<Rightarrow> None)
           else None)
      | _ \<Rightarrow> None)"

definition valid_row :: "stdlib \<Rightarrow> row \<Rightarrow> bool" where
  "valid_row lib r = (row_entry lib r \<noteq> None)"

text \<open>The URL that a pointer of the map leads to.\<close>

definition url_at :: "heap \<times> URLMap \<Rightarrow> string \<Rightarrow> url option" where
  "url_at hm k =
     (case snd hm k of
        None \<Rightarrow> None
      | Some a \<Rightarrow> if a < length (fst hm) then Some (fst hm ! a) else None)"

text \<open>Five raw rows: two valid ones whose shortcuts differ in case only, and three
  that break one rule each (one column, a shortcut that is no string, a destination
  that does not parse).\<close>

definition example_rows :: "row list" where
  "example_rows =
     [[Str ''Git'', Str ''https://github.com/denizyoldas''],
      [Str ''go''],
      [NonStr, Str ''https://go.dev/''],
      [Str ''bad'', Str '':nope''],
      [Str ''GIT'', Str ''https://go.dev/'', NonStr]]"


text \<open>A sheet with one row, the server after a refresh from it at time \<open>t\<close>, and a
  reading of the clock in the year 2023.\<close>

definition go_row :: "row list" where
  "go_row = [[Str ''go'', Str ''https://go.dev/'']]"

definition go_memory :: "int \<Rightarrow> memory" where
  "go_memory t =
     \<lparr>urls = [\<lparr>Scheme = ''https'', Host = ''go.dev'', Path = ''/'', RawQuery = []\<rparr>],
      db = \<lparr>v = [''go'' \<mapsto> 0], lastUpdate = t, ttl = five_seconds, sheet = configured\<rparr>\<rparr>"

definition day :: int where
  "day = 1700000000000000000"


text \<open>A cache that holds the shortcut \<open>a\<close>, whose provider returns an error value when
  queried, and a world about seven seconds after the cache's last refresh.\<close>

definition stale_memory :: memory where
  "stale_memory = one_shortcut ''a'' (example_com []) unconfigured"

definition late_world :: world where
  "late_world = world_at 7000000000 sheets_down"

text \<open>The first row of the table in the repository's description, with the shortcut
  written with a capital letter, and the server after a refresh from it.\<close>

definition git_sheet :: "row list" where
  "git_sheet = [[Str ''Git'', Str ''https://github.com/denizyoldas'']]"

definition git_memory :: "int \<Rightarrow> memory" where
  "git_memory t =
     \<lparr>urls = [\<lparr>Scheme = ''https'', Host = ''github.com'', Path = ''/denizyoldas'', RawQuery = []\<rparr>],
      db = \<lparr>v = [''git'' \<mapsto> 0], lastUpdate = t, ttl = five_seconds, sheet = configured\<rparr>\<rparr>"

section \<open>Properties\<close>

text \<open>The definitions that a run of the code on a concrete input unfolds.\<close>

lemmas run_defs = findRedirect_def findRedirect_loop.simps prepRedirect_def Get_def Refresh_def
  time_Since_def time_Now_def time_Sub_def maxDuration_def minDuration_def sheet_Query_def Query_def
  getClient_def tokenFromFile_def urlMap_def URL_Query_def TrimPrefix_def HasPrefix_def HasSuffix_def
  Values_Add_def Values_Get_def Let_def

lemmas example_defs = example_lib_def ascii_ToLower_def ascii_lower_def plain_Parse_def
  plain_ParseQuery_def plain_Encode_def configured_def unconfigured_def sheets_ok_def sheets_down_def
  world_at_def five_seconds_def one_shortcut_def example_com_def zero_time_def initial_memory_def
  request_def

subsection \<open>The row transformation\<close>

text \<open>One round of the loop of \<^verbatim>\<open>urlMap\<close>, in terms of the rules as the
  specification words them.\<close>

lemma urlMap_rows_Cons:
  "urlMap_rows lib (r # rest) h out =
     (case row_entry lib r of
        None \<Rightarrow> urlMap_rows lib rest h out
      | Some (k, u) \<Rightarrow> urlMap_rows lib rest (h @ [u]) (out(k \<mapsto> length h)))"
proof (cases r)
  case Nil
  then show ?thesis by (simp add: row_entry_def)
next
  case (Cons c0 r1)
  note r = this
  show ?thesis
  proof (cases r1)
    case Nil
    with r show ?thesis by (simp add: row_entry_def split: cell.splits)
  next
    case (Cons c1 r2)
    with r show ?thesis
      by (simp add: row_entry_def Let_def split: cell.splits sum.splits)
  qed
qed

lemma urlMap_rows_heap_grows:
  "urlMap_rows lib rows h out = (h', out') \<Longrightarrow> \<exists>ext. h' = h @ ext"
proof (induction rows arbitrary: h out)
  case Nil
  then show ?case by simp
next
  case (Cons r rest)
  show ?case
  proof (cases "row_entry lib r")
    case None
    with Cons.prems have "urlMap_rows lib rest h out = (h', out')"
      by (simp add: urlMap_rows_Cons del: urlMap_rows.simps)
    then show ?thesis by (rule Cons.IH)
  next
    case (Some e)
    obtain k u where e: "e = (k, u)" by (cases e)
    with Some Cons.prems have "urlMap_rows lib rest (h @ [u]) (out(k \<mapsto> length h)) = (h', out')"
      by (simp add: urlMap_rows_Cons del: urlMap_rows.simps)
    then obtain ext where "h' = (h @ [u]) @ ext" using Cons.IH by blast
    then show ?thesis by simp
  qed
qed


lemma urlMap_rows_other_key:
  "urlMap_rows lib rows h out = (h', out') \<Longrightarrow>
   (\<And>r u. r \<in> set rows \<Longrightarrow> row_entry lib r \<noteq> Some (k, u)) \<Longrightarrow> out' k = out k"
proof (induction rows arbitrary: h out)
  case Nil
  then show ?case by simp
next
  case (Cons r rest)
  have rest_free: "\<And>r' u. r' \<in> set rest \<Longrightarrow> row_entry lib r' \<noteq> Some (k, u)"
    using Cons.prems(2) by simp
  show ?case
  proof (cases "row_entry lib r")
    case None
    with Cons.prems(1) have "urlMap_rows lib rest h out = (h', out')"
      by (simp add: urlMap_rows_Cons del: urlMap_rows.simps)
    then show ?thesis using rest_free by (rule Cons.IH)
  next
    case (Some e)
    obtain k' u' where e: "e = (k', u')" by (cases e)
    have "k' \<noteq> k" using Cons.prems(2) [of r u'] Some e by auto
    from Some e Cons.prems(1)
    have "urlMap_rows lib rest (h @ [u']) (out(k' \<mapsto> length h)) = (h', out')"
      by (simp add: urlMap_rows_Cons del: urlMap_rows.simps)
    then have "out' k = (out(k' \<mapsto> length h)) k" using rest_free by (rule Cons.IH)
    with \<open>k' \<noteq> k\<close> show ?thesis by simp
  qed
qed

lemma urlMap_rows_last_wins:
  "urlMap_rows lib rows h out = (h', out') \<Longrightarrow> i < length rows \<Longrightarrow>
   row_entry lib (rows ! i) = Some (k, u) \<Longrightarrow>
   (\<And>j u'. i < j \<Longrightarrow> j < length rows \<Longrightarrow> row_entry lib (rows ! j) \<noteq> Some (k, u')) \<Longrightarrow>
   \<exists>a. out' k = Some a \<and> a < length h' \<and> h' ! a = u"
proof (induction rows arbitrary: i h out)
  case Nil
  then show ?case by simp
next
  case (Cons r rest)
  show ?case
  proof (cases i)
    case 0
    with Cons.prems(3) have entry: "row_entry lib r = Some (k, u)" by simp
    with Cons.prems(1)
    have run: "urlMap_rows lib rest (h @ [u]) (out(k \<mapsto> length h)) = (h', out')"
      by (simp add: urlMap_rows_Cons del: urlMap_rows.simps)
    have no_later: "\<And>r' u'. r' \<in> set rest \<Longrightarrow> row_entry lib r' \<noteq> Some (k, u')"
    proof -
      fix r' u'
      assume "r' \<in> set rest"
      then obtain j where "j < length rest" "rest ! j = r'" by (auto simp: in_set_conv_nth)
      then show "row_entry lib r' \<noteq> Some (k, u')"
        using Cons.prems(4) [of "Suc j" u'] 0 by auto
    qed
    from run no_later have "out' k = (out(k \<mapsto> length h)) k" by (rule urlMap_rows_other_key)
    then have ptr: "out' k = Some (length h)" by simp
    from run obtain ext where "h' = (h @ [u]) @ ext"
      using urlMap_rows_heap_grows by blast
    then have "length h < length h'" "h' ! length h = u" by (simp_all add: nth_append)
    with ptr show ?thesis by blast
  next
    case (Suc i')
    obtain h1 out1 where run: "urlMap_rows lib rest h1 out1 = (h', out')"
      using Cons.prems(1)
      by (cases "row_entry lib r") (auto simp: urlMap_rows_Cons simp del: urlMap_rows.simps)
    have "i' < length rest" using Cons.prems(2) Suc by simp
    moreover have "row_entry lib (rest ! i') = Some (k, u)" using Cons.prems(3) Suc by simp
    moreover have "\<And>j u'. i' < j \<Longrightarrow> j < length rest \<Longrightarrow> row_entry lib (rest ! j) \<noteq> Some (k, u')"
      using Cons.prems(4) [of "Suc _"] Suc by auto
    ultimately show ?thesis using run Cons.IH by blast
  qed
qed

lemma urlMap_rows_key_origin:
  "urlMap_rows lib rows h out = (h', out') \<Longrightarrow> out' k = Some a \<Longrightarrow>
   out k = Some a \<or> (\<exists>i<length rows. \<exists>u. row_entry lib (rows ! i) = Some (k, u))"
proof (induction rows arbitrary: h out)
  case Nil
  then show ?case by simp
next
  case (Cons r rest)
  show ?case
  proof (cases "row_entry lib r")
    case None
    with Cons.prems(1) have "urlMap_rows lib rest h out = (h', out')"
      by (simp add: urlMap_rows_Cons del: urlMap_rows.simps)
    from Cons.IH [OF this Cons.prems(2)] show ?thesis by fastforce
  next
    case (Some e)
    obtain k' u' where e: "e = (k', u')" by (cases e)
    from Some e Cons.prems(1)
    have "urlMap_rows lib rest (h @ [u']) (out(k' \<mapsto> length h)) = (h', out')"
      by (simp add: urlMap_rows_Cons del: urlMap_rows.simps)
    from Cons.IH [OF this Cons.prems(2)]
    consider "(out(k' \<mapsto> length h)) k = Some a"
      | "\<exists>i<length rest. \<exists>u. row_entry lib (rest ! i) = Some (k, u)" by blast
    then show ?thesis
    proof cases
      case 1
      show ?thesis
      proof (cases "k' = k")
        case True
        with Some e have "row_entry lib ((r # rest) ! 0) = Some (k, u')" by simp
        then show ?thesis by fastforce
      next
        case False
        with 1 show ?thesis by simp
      qed
    next
      case 2
      then obtain i u where "i < length rest" "row_entry lib (rest ! i) = Some (k, u)" by blast
      then have "Suc i < length (r # rest)" "row_entry lib ((r # rest) ! Suc i) = Some (k, u)"
        by simp_all
      then show ?thesis by blast
    qed
  qed
qed

lemma urlMap_rows_skips_invalid:
  "urlMap_rows lib rows h out = urlMap_rows lib (filter (valid_row lib) rows) h out"
proof (induction rows arbitrary: h out)
  case Nil
  then show ?case by simp
next
  case (Cons r rest)
  show ?case
  proof (cases "row_entry lib r")
    case None
    then have "urlMap_rows lib (r # rest) h out = urlMap_rows lib rest h out"
      by (simp add: urlMap_rows_Cons del: urlMap_rows.simps)
    with None Cons.IH show ?thesis by (simp add: valid_row_def del: urlMap_rows.simps)
  next
    case (Some e)
    obtain k u where e: "e = (k, u)" by (cases e)
    have "urlMap_rows lib (filter (valid_row lib) (r # rest)) h out
            = urlMap_rows lib (r # filter (valid_row lib) rest) h out"
      using Some by (simp add: valid_row_def del: urlMap_rows.simps)
    also have "\<dots> = urlMap_rows lib (filter (valid_row lib) rest) (h @ [u]) (out(k \<mapsto> length h))"
      using Some e by (simp add: urlMap_rows_Cons del: urlMap_rows.simps)
    also have "\<dots> = urlMap_rows lib rest (h @ [u]) (out(k \<mapsto> length h))"
      by (rule Cons.IH [symmetric])
    also have "\<dots> = urlMap_rows lib (r # rest) h out"
      using Some e by (simp add: urlMap_rows_Cons del: urlMap_rows.simps)
    finally show ?thesis by simp
  qed
qed


lemma urlMap_rows_key_kept:
  "urlMap_rows lib rows h out = (h', out') \<Longrightarrow>
   out k \<noteq> None \<or> (\<exists>r\<in>set rows. \<exists>u. row_entry lib r = Some (k, u)) \<Longrightarrow> out' k \<noteq> None"
proof (induction rows arbitrary: h out)
  case Nil
  then show ?case by simp
next
  case (Cons r rest)
  show ?case
  proof (cases "row_entry lib r")
    case None
    with Cons.prems(1) have run: "urlMap_rows lib rest h out = (h', out')"
      by (simp add: urlMap_rows_Cons del: urlMap_rows.simps)
    from Cons.prems(2) None
    have "out k \<noteq> None \<or> (\<exists>r\<in>set rest. \<exists>u. row_entry lib r = Some (k, u))" by auto
    with run show ?thesis by (rule Cons.IH)
  next
    case (Some e)
    obtain k' u' where e: "e = (k', u')" by (cases e)
    from Some e Cons.prems(1)
    have run: "urlMap_rows lib rest (h @ [u']) (out(k' \<mapsto> length h)) = (h', out')"
      by (simp add: urlMap_rows_Cons del: urlMap_rows.simps)
    from Cons.prems(2) Some e
    have "(out(k' \<mapsto> length h)) k \<noteq> None \<or> (\<exists>r\<in>set rest. \<exists>u. row_entry lib r = Some (k, u))"
      by auto
    with run show ?thesis by (rule Cons.IH)
  qed
qed

text \<open>
  C9. For every sequence of raw rows: the shortcut of every valid row, lowercased, is a
  key of the mapping that \<^verbatim>\<open>urlMap\<close> builds; a valid row that no later valid row
  repeats (up to case) has its lowercased shortcut mapped to its parsed URL, so among
  several valid rows with the same lowercased shortcut the last one gives the
  destination; every key of the mapping comes from a valid row; and the rows that fail
  a check are skipped, the result being the one for the valid rows alone. The
  transformation is a total function: it has no failing outcome.
\<close>

theorem urlMap_builds_mapping:
  "(\<forall>i<length rows. \<forall>k u. row_entry lib (rows ! i) = Some (k, u) \<longrightarrow>
      snd (urlMap lib rows h) k \<noteq> None \<and>
      ((\<forall>j<length rows. i < j \<longrightarrow> (\<forall>u'. row_entry lib (rows ! j) \<noteq> Some (k, u')))
         \<longrightarrow> url_at (urlMap lib rows h) k = Some u))
   \<and> (\<forall>k. snd (urlMap lib rows h) k \<noteq> None \<longrightarrow>
         (\<exists>i<length rows. \<exists>u. row_entry lib (rows ! i) = Some (k, u)))
   \<and> urlMap lib rows h = urlMap lib (filter (valid_row lib) rows) h"
proof -
  obtain h' out where run: "urlMap_rows lib rows h Map.empty = (h', out)"
    by (cases "urlMap_rows lib rows h Map.empty")
  then have res: "urlMap lib rows h = (h', out)" by (simp add: urlMap_def)
  have kept: "out k \<noteq> None" if "i < length rows" "row_entry lib (rows ! i) = Some (k, u)" for i k u
  proof -
    from that have "\<exists>r\<in>set rows. \<exists>u. row_entry lib r = Some (k, u)" by (metis nth_mem)
    then show ?thesis using urlMap_rows_key_kept [OF run] by blast
  qed
  have last: "url_at (h', out) k = Some u"
    if "i < length rows" "row_entry lib (rows ! i) = Some (k, u)"
      "\<forall>j<length rows. i < j \<longrightarrow> (\<forall>u'. row_entry lib (rows ! j) \<noteq> Some (k, u'))" for i k u
  proof -
    from that(3) have "\<And>j u'. i < j \<Longrightarrow> j < length rows \<Longrightarrow> row_entry lib (rows ! j) \<noteq> Some (k, u')"
      by blast
    with urlMap_rows_last_wins [OF run that(1) that(2)]
    obtain a where "out k = Some a" "a < length h'" "h' ! a = u" by blast
    then show ?thesis by (simp add: url_at_def)
  qed
  have origin: "\<exists>i<length rows. \<exists>u. row_entry lib (rows ! i) = Some (k, u)" if "out k \<noteq> None" for k
  proof -
    from that obtain a where "out k = Some a" by blast
    from urlMap_rows_key_origin [OF run this] show ?thesis by simp
  qed
  have skip: "urlMap lib rows h = urlMap lib (filter (valid_row lib) rows) h"
    unfolding urlMap_def by (rule urlMap_rows_skips_invalid)
  have A: "\<forall>i<length rows. \<forall>k u. row_entry lib (rows ! i) = Some (k, u) \<longrightarrow>
      snd (urlMap lib rows h) k \<noteq> None \<and>
      ((\<forall>j<length rows. i < j \<longrightarrow> (\<forall>u'. row_entry lib (rows ! j) \<noteq> Some (k, u')))
         \<longrightarrow> url_at (urlMap lib rows h) k = Some u)"
    unfolding res using kept last by simp
  have B: "\<forall>k. snd (urlMap lib rows h) k \<noteq> None \<longrightarrow>
         (\<exists>i<length rows. \<exists>u. row_entry lib (rows ! i) = Some (k, u))"
    unfolding res using origin by simp
  from A B skip show ?thesis by (intro conjI)
qed

text \<open>The theorem at the five example rows: the last row wins over the first, the
  unparsable row leaves no key, and only rows 0 and 4 count.\<close>

theorem urlMap_builds_mapping_witness:
  "row_entry example_lib (example_rows ! 4) = Some (''git'', \<lparr>Scheme = ''https'', Host = ''go.dev'', Path = ''/'', RawQuery = []\<rparr>)
   \<and> url_at (urlMap example_lib example_rows []) ''git'' = Some \<lparr>Scheme = ''https'', Host = ''go.dev'', Path = ''/'', RawQuery = []\<rparr>
   \<and> snd (urlMap example_lib example_rows []) ''bad'' = None
   \<and> urlMap example_lib example_rows [] = urlMap example_lib [example_rows ! 0, example_rows ! 4] []"
proof -
  let ?u = "\<lparr>Scheme = ''https'', Host = ''go.dev'', Path = ''/'', RawQuery = []\<rparr>"
  have len: "length example_rows = 5" by (simp add: example_rows_def)
  have entry: "row_entry example_lib (example_rows ! 4) = Some (''git'', ?u)"
    by (simp add: example_rows_def row_entry_def example_defs TrimPrefix_def HasPrefix_def)
  have bad: "\<forall>i<length example_rows. \<forall>u. row_entry example_lib (example_rows ! i) \<noteq> Some (''bad'', u)"
    by (simp add: example_rows_def row_entry_def example_defs TrimPrefix_def HasPrefix_def
        All_less_Suc numeral_eq_Suc)
  have filt: "filter (valid_row example_lib) example_rows = [example_rows ! 0, example_rows ! 4]"
    by (simp add: example_rows_def valid_row_def row_entry_def example_defs TrimPrefix_def HasPrefix_def)
  note spec = urlMap_builds_mapping [of example_rows example_lib "[]"]
  from spec have last: "\<And>i k u. i < length example_rows \<Longrightarrow> row_entry example_lib (example_rows ! i) = Some (k, u) \<Longrightarrow>
      (\<forall>j<length example_rows. i < j \<longrightarrow> (\<forall>u'. row_entry example_lib (example_rows ! j) \<noteq> Some (k, u'))) \<Longrightarrow>
      url_at (urlMap example_lib example_rows []) k = Some u"
    by blast
  have git: "url_at (urlMap example_lib example_rows []) ''git'' = Some ?u"
    by (rule last [of 4]) (simp_all add: len entry)
  from spec bad have none: "snd (urlMap example_lib example_rows []) ''bad'' = None"
    by blast
  from spec filt have skip: "urlMap example_lib example_rows [] = urlMap example_lib [example_rows ! 0, example_rows ! 4] []"
    by simp
  from entry git none skip show ?thesis by (intro conjI)
qed

subsection \<open>The cache\<close>

text \<open>The two ways through \<^verbatim>\<open>Refresh\<close>, by the duration that
  \<^verbatim>\<open>time.Since(c.lastUpdate)\<close> gives.\<close>

lemma Refresh_not_due:
  "time_Since (lastUpdate (db m)) w = (d, w1) \<Longrightarrow> d \<le> ttl (db m) \<Longrightarrow>
   Refresh lib m w = Return (None, m, w1)"
  by (simp add: Refresh_def Let_def)

lemma Refresh_due:
  "time_Since (lastUpdate (db m)) w = (d, w1) \<Longrightarrow> \<not> d \<le> ttl (db m) \<Longrightarrow>
   sheet_Query (sheet (db m)) w1 = (q, w2) \<Longrightarrow>
   Refresh lib m w =
     (case q of
        Panic \<Rightarrow> Panic
      | Exit \<Rightarrow> Exit
      | Return (Inl err) \<Rightarrow> Return (Some err, m, w2)
      | Return (Inr rows) \<Rightarrow>
          Return (None,
                  \<lparr>urls = fst (urlMap lib rows (urls m)),
                   db = (db m)\<lparr>v := snd (urlMap lib rows (urls m)), lastUpdate := fst (time_Now w2)\<rparr>\<rparr>,
                  snd (time_Now w2)))"
  by (simp add: Refresh_def Let_def split_beta split: exec.splits sum.splits)

lemma time_Since_queries: "time_Since t w = (d, w1) \<Longrightarrow> queries w1 = queries w"
  by (auto simp: time_Since_def time_Now_def)

lemma time_Now_queries: "queries (snd (time_Now w)) = queries w"
  by (simp add: time_Now_def)

lemma sheet_Query_queries: "sheet_Query s w = (q, w2) \<Longrightarrow> queries w2 = Suc (queries w)"
  by (auto simp: sheet_Query_def)


text \<open>
  C7. Let \<open>d\<close> be the duration since the last refresh that \<^verbatim>\<open>Refresh\<close> reads.
  If \<open>d \<le> ttl\<close>, \<^verbatim>\<open>Refresh\<close> returns \<^verbatim>\<open>nil\<close>, the memory is unchanged and no
  provider query is made. If \<open>d > ttl\<close>, \<^verbatim>\<open>Refresh\<close> makes one provider query: it
  returns when the query returns, with one query more on the count, and it ends as the
  query ends otherwise. When that query returns rows, \<^verbatim>\<open>Refresh\<close> stores the mapping
  built from them and, as the time of the last refresh, the reading \<open>now\<close> that the
  clock gives after the query. So a second call that follows, at a reading of the clock
  within the TTL of \<open>now\<close>, returns \<^verbatim>\<open>nil\<close> and changes nothing, and the two calls
  together have made exactly one provider query. The window is a condition on the clock
  alone, not on what the first call stored.
\<close>

theorem Refresh_ttl_window:
  "(time_Since (lastUpdate (db m)) w = (d, w1) \<and> d \<le> ttl (db m) \<longrightarrow>
      Refresh lib m w = Return (None, m, w1) \<and> queries w1 = queries w)
   \<and> (time_Since (lastUpdate (db m)) w = (d, w1) \<and> \<not> d \<le> ttl (db m) \<longrightarrow>
        (case fst (sheet_Query (sheet (db m)) w1) of
           Return q \<Rightarrow> (\<exists>r m' w'. Refresh lib m w = Return (r, m', w') \<and> queries w' = Suc (queries w))
         | Panic \<Rightarrow> Refresh lib m w = Panic
         | Exit \<Rightarrow> Refresh lib m w = Exit))
   \<and> (time_Since (lastUpdate (db m)) w = (d, w1) \<and> \<not> d \<le> ttl (db m) \<and>
       sheet_Query (sheet (db m)) w1 = (Return (Inr rows), w2) \<and> time_Now w2 = (now, w3) \<longrightarrow>
         Refresh lib m w =
           Return (None,
                   \<lparr>urls = fst (urlMap lib rows (urls m)),
                    db = (db m)\<lparr>v := snd (urlMap lib rows (urls m)), lastUpdate := now\<rparr>\<rparr>,
                   w3)
         \<and> queries w3 = Suc (queries w))
   \<and> (time_Since (lastUpdate (db m)) w = (d, w1) \<and> \<not> d \<le> ttl (db m) \<and>
       sheet_Query (sheet (db m)) w1 = (Return (Inr rows), w2) \<and> time_Now w2 = (now, w3) \<and>
       time_Since now w3 = (d', w4) \<and> d' \<le> ttl (db m) \<longrightarrow>
         (\<exists>m'. Refresh lib m w = Return (None, m', w3) \<and>
               Refresh lib m' w3 = Return (None, m', w4) \<and>
               queries w4 = Suc (queries w)))"
proof (intro conjI impI)
  assume "time_Since (lastUpdate (db m)) w = (d, w1) \<and> d \<le> ttl (db m)"
  then show "Refresh lib m w = Return (None, m, w1)" by (simp add: Refresh_not_due)
next
  assume "time_Since (lastUpdate (db m)) w = (d, w1) \<and> d \<le> ttl (db m)"
  then show "queries w1 = queries w" by (blast dest: time_Since_queries)
next
  assume a: "time_Since (lastUpdate (db m)) w = (d, w1) \<and> \<not> d \<le> ttl (db m)"
  obtain q w2 where q: "sheet_Query (sheet (db m)) w1 = (q, w2)"
    by (cases "sheet_Query (sheet (db m)) w1")
  from a have since: "time_Since (lastUpdate (db m)) w = (d, w1)" and due: "\<not> d \<le> ttl (db m)"
    by simp_all
  have cnt: "queries w2 = Suc (queries w)"
    using sheet_Query_queries [OF q] time_Since_queries [OF since] by simp
  show "case fst (sheet_Query (sheet (db m)) w1) of
           Return q \<Rightarrow> (\<exists>r m' w'. Refresh lib m w = Return (r, m', w') \<and> queries w' = Suc (queries w))
         | Panic \<Rightarrow> Refresh lib m w = Panic
         | Exit \<Rightarrow> Refresh lib m w = Exit"
    using Refresh_due [OF since due q, of lib] cnt
    by (simp add: q time_Now_queries split: exec.splits sum.splits)
next
  assume a: "time_Since (lastUpdate (db m)) w = (d, w1) \<and> \<not> d \<le> ttl (db m) \<and>
       sheet_Query (sheet (db m)) w1 = (Return (Inr rows), w2) \<and> time_Now w2 = (now, w3)"
  then show "Refresh lib m w =
           Return (None,
                   \<lparr>urls = fst (urlMap lib rows (urls m)),
                    db = (db m)\<lparr>v := snd (urlMap lib rows (urls m)), lastUpdate := now\<rparr>\<rparr>,
                   w3)"
    using Refresh_due [of m w d w1 "Return (Inr rows)" w2 lib] by simp
next
  assume a: "time_Since (lastUpdate (db m)) w = (d, w1) \<and> \<not> d \<le> ttl (db m) \<and>
       sheet_Query (sheet (db m)) w1 = (Return (Inr rows), w2) \<and> time_Now w2 = (now, w3)"
  then have "queries w3 = queries w2"
    using time_Now_queries [of w2] by simp
  with a show "queries w3 = Suc (queries w)"
    using sheet_Query_queries [of "sheet (db m)" w1 "Return (Inr rows)" w2]
      time_Since_queries [of "lastUpdate (db m)" w d w1] by simp
next
  assume a: "time_Since (lastUpdate (db m)) w = (d, w1) \<and> \<not> d \<le> ttl (db m) \<and>
       sheet_Query (sheet (db m)) w1 = (Return (Inr rows), w2) \<and> time_Now w2 = (now, w3) \<and>
       time_Since now w3 = (d', w4) \<and> d' \<le> ttl (db m)"
  let ?m' = "\<lparr>urls = fst (urlMap lib rows (urls m)),
              db = (db m)\<lparr>v := snd (urlMap lib rows (urls m)), lastUpdate := now\<rparr>\<rparr>"
  from a have first: "Refresh lib m w = Return (None, ?m', w3)"
    using Refresh_due [of m w d w1 "Return (Inr rows)" w2 lib] by simp
  from a have "time_Since (lastUpdate (db ?m')) w3 = (d', w4)" "d' \<le> ttl (db ?m')"
    by simp_all
  then have second: "Refresh lib ?m' w3 = Return (None, ?m', w4)"
    by (rule Refresh_not_due)
  from a have "queries w3 = queries w2"
    using time_Now_queries [of w2] by simp
  with a have "queries w4 = Suc (queries w)"
    using sheet_Query_queries [of "sheet (db m)" w1 "Return (Inr rows)" w2]
      time_Since_queries [of "lastUpdate (db m)" w d w1]
      time_Since_queries [of now w3 d' w4] by simp
  with first second
  show "\<exists>m'. Refresh lib m w = Return (None, m', w3) \<and>
               Refresh lib m' w3 = Return (None, m', w4) \<and>
               queries w4 = Suc (queries w)"
    by blast
qed

text \<open>The theorem at the server as \<^verbatim>\<open>main\<close> creates it: the first call refreshes from
  the one-row sheet and stores the clock's reading, the second call, one reading later,
  changes nothing, and the count of provider queries is one.\<close>

theorem Refresh_ttl_window_witness:
  "Refresh example_lib (initial_memory configured) (world_at day (sheets_ok go_row))
     = Return (None, go_memory (day + 1), (world_at day (sheets_ok go_row))\<lparr>clock_reads := 2, queries := 1\<rparr>)
   \<and> Refresh example_lib (go_memory (day + 1)) ((world_at day (sheets_ok go_row))\<lparr>clock_reads := 2, queries := 1\<rparr>)
     = Return (None, go_memory (day + 1), (world_at day (sheets_ok go_row))\<lparr>clock_reads := 3, queries := 1\<rparr>)
   \<and> queries ((world_at day (sheets_ok go_row))\<lparr>clock_reads := 3, queries := 1\<rparr>)
     = Suc (queries (world_at day (sheets_ok go_row)))"
proof -
  let ?m0 = "initial_memory configured"
  let ?w0 = "world_at day (sheets_ok go_row)"
  let ?m1 = "go_memory (day + 1)"
  let ?w1 = "?w0\<lparr>clock_reads := 1\<rparr>"
  let ?w2 = "?w0\<lparr>clock_reads := 1, queries := 1\<rparr>"
  let ?w3 = "?w0\<lparr>clock_reads := 2, queries := 1\<rparr>"
  let ?w4 = "?w0\<lparr>clock_reads := 3, queries := 1\<rparr>"
  have since0: "time_Since (lastUpdate (db ?m0)) ?w0 = (maxDuration, ?w1)"
    by (simp add: run_defs example_defs day_def)
  have due0: "\<not> maxDuration \<le> ttl (db ?m0)"
    by (simp add: run_defs example_defs)
  have query: "sheet_Query (sheet (db ?m0)) ?w1 = (Return (Inr go_row), ?w2)"
    by (simp add: run_defs example_defs)
  have now: "time_Now ?w2 = (day + 1, ?w3)"
    by (simp add: run_defs example_defs)
  have since1: "time_Since (day + 1) ?w3 = (1, ?w4)"
    by (simp add: run_defs example_defs)
  have fresh1: "(1::int) \<le> ttl (db ?m0)"
    by (simp add: example_defs)
  have stored: "\<lparr>urls = fst (urlMap example_lib go_row (urls ?m0)),
                 db = (db ?m0)\<lparr>v := snd (urlMap example_lib go_row (urls ?m0)), lastUpdate := day + 1\<rparr>\<rparr> = ?m1"
    by (simp add: run_defs example_defs go_row_def go_memory_def)
  note inst = Refresh_ttl_window [of ?m0 ?w0 maxDuration ?w1 example_lib go_row ?w2 "day + 1" ?w3 1 ?w4]
  from inst since0 due0 query now
  have first: "Refresh example_lib ?m0 ?w0 = Return (None, ?m1, ?w3)"
    unfolding stored by blast
  from inst since0 due0 query now since1 fresh1
  obtain m' where m': "Refresh example_lib ?m0 ?w0 = Return (None, m', ?w3)"
      "Refresh example_lib m' ?w3 = Return (None, m', ?w4)" "queries ?w4 = Suc (queries ?w0)"
    by blast
  from m'(1) first have "m' = ?m1" by simp
  with m' first show ?thesis by blast
qed

text \<open>
  C8. When \<^verbatim>\<open>Refresh\<close> finds the TTL elapsed and the provider query returns an error,
  \<^verbatim>\<open>Refresh\<close> returns that error and the memory after the call is the memory before
  it: the mapping, the time of the last refresh and the URL objects are as they were.
\<close>

theorem Refresh_query_error:
  assumes "time_Since (lastUpdate (db m)) w = (d, w1)"
    and "\<not> d \<le> ttl (db m)"
    and "sheet_Query (sheet (db m)) w1 = (Return (Inl err), w2)"
  shows "Refresh lib m w = Return (Some err, m, w2)"
  using Refresh_due [OF assms] by simp

text \<open>The theorem at the cache whose provider has no sheet identifier.\<close>

theorem Refresh_query_error_witness:
  "Refresh example_lib stale_memory late_world
     = Return (Some (Errorf ''GOOGLE_SHEET_ID not set''), stale_memory,
               late_world\<lparr>clock_reads := 1, queries := 1\<rparr>)"
proof -
  let ?m = stale_memory
  let ?w = late_world
  have since: "time_Since (lastUpdate (db ?m)) ?w = (6999999000, ?w\<lparr>clock_reads := 1\<rparr>)"
    by (simp add: run_defs example_defs stale_memory_def late_world_def)
  have due: "\<not> (6999999000::int) \<le> ttl (db ?m)"
    by (simp add: example_defs stale_memory_def)
  have query: "sheet_Query (sheet (db ?m)) (?w\<lparr>clock_reads := 1\<rparr>)
                 = (Return (Inl (Errorf ''GOOGLE_SHEET_ID not set'')), ?w\<lparr>clock_reads := 1, queries := 1\<rparr>)"
    by (simp add: run_defs example_defs stale_memory_def late_world_def)
  from Refresh_query_error [OF since due query] show ?thesis .
qed




subsection \<open>The provider\<close>

text \<open>
  C5. The claim is that a network or authorisation failure during the provider query
  comes back as an error value from \<^verbatim>\<open>Query\<close> and from \<^verbatim>\<open>Refresh\<close>, and that no
  request ends the process. With both settings present and the request to the
  spreadsheet service failing, \<^verbatim>\<open>Query\<close> reaches
  \<^verbatim>\<open>log.Fatalf("Unable to retrieve data from sheet: %v", err)\<close>: the process ends, and
  so \<^verbatim>\<open>Refresh\<close>, \<^verbatim>\<open>Get\<close> and \<^verbatim>\<open>findRedirect\<close> return nothing.
\<close>

theorem Query_network_failure_exits:
  "Query configured sheets_down = Exit
   \<and> Refresh example_lib (one_shortcut ''a'' (example_com []) configured) (world_at 7000000000 sheets_down) = Exit
   \<and> Get example_lib ''a'' (one_shortcut ''a'' (example_com []) configured) (world_at 7000000000 sheets_down) = Exit
   \<and> findRedirect example_lib (request ''/a'' [])
        (one_shortcut ''a'' (example_com []) configured) (world_at 7000000000 sheets_down) = Exit"
  by (simp add: run_defs example_defs)

text \<open>The only error values that \<^verbatim>\<open>Query\<close> returns are the two for a missing setting;
  they do not depend on what the outside world answers.\<close>

lemma Query_error_values:
  "Query s io = Return (Inl err) \<Longrightarrow>
   (googleSheetsID s = [] \<and> err = Errorf ''GOOGLE_SHEET_ID not set'')
   \<or> (googleSheetsID s \<noteq> [] \<and> sheetName s = [] \<and> err = Errorf ''SHEET_NAME not set'')"
  by (auto simp: Query_def split: if_splits option.splits exec.splits sum.splits)

subsection \<open>The resolver\<close>

lemma Split_not_empty: "Split s c \<noteq> []"
  by (induction s) (auto split: list.splits)

text \<open>As long as segments are left, the loop of \<^verbatim>\<open>findRedirect\<close> does not return
  \<^verbatim>\<open>(nil, nil)\<close>: the last miss panics before the loop condition is tested again.\<close>

lemma findRedirect_loop_never_absent:
  "segments \<noteq> [] \<Longrightarrow> findRedirect_loop lib req segments discard m w \<noteq> Return (Inr None, m', w')"
proof (induction lib req segments discard m w rule: findRedirect_loop.induct)
  case (1 lib req segments discard m w)
  show ?case
  proof (cases "Get lib (Join segments ''/'') m w")
    case Panic
    with "1.prems" show ?thesis by (subst findRedirect_loop.simps) simp
  next
    case Exit
    with "1.prems" show ?thesis by (subst findRedirect_loop.simps) simp
  next
    case (Return res)
    obtain r m1 w1 where res: "res = (r, m1, w1)" by (cases res)
    show ?thesis
    proof (cases r)
      case (Inl err)
      with Return res "1.prems" show ?thesis by (subst findRedirect_loop.simps) simp
    next
      case (Inr ptr)
      show ?thesis
      proof (cases ptr)
        case (Some a)
        with Return res Inr "1.prems" show ?thesis
          by (subst findRedirect_loop.simps) (simp split: exec.splits)
      next
        case None
        let ?segs = "take (length segments - 1) segments"
        show ?thesis
        proof (cases "length ?segs = 0")
          case True
          with Return res Inr None "1.prems" show ?thesis
            by (subst findRedirect_loop.simps) simp
        next
          case False
          then have ne: "?segs \<noteq> []" by auto
          have "findRedirect_loop lib req ?segs (?segs ! (length ?segs - 1) # discard) m1 w1
                  \<noteq> Return (Inr None, m', w')"
            using "1.prems"
            by (intro "1.IH" [OF _ Return res [symmetric] Inr None refl refl False ne]) simp
          with Return res Inr None False "1.prems" show ?thesis
            by (subst findRedirect_loop.simps) (simp add: Let_def)
        qed
      qed
    qed
  qed
qed

text \<open>No request makes \<^verbatim>\<open>findRedirect\<close> return \<^verbatim>\<open>(nil, nil)\<close>.\<close>

lemma findRedirect_never_absent:
  "findRedirect lib req m w \<noteq> Return (Inr None, m', w')"
  by (simp add: findRedirect_def Let_def findRedirect_loop_never_absent Split_not_empty)

text \<open>The result of \<^verbatim>\<open>prepRedirect\<close> does not depend on the parameters of the request.\<close>

lemma prepRedirect_ignores_query:
  "prepRedirect lib base addPath query h = prepRedirect lib base addPath query' h"
  by (simp add: prepRedirect_def Let_def)

text \<open>
  C1. The claim is that a path which matches no shortcut at any prefix depth, the empty
  path included, resolves to the absent result without an error. On a cache that holds
  the shortcut \<open>a/b\<close> only, the paths \<open>/nope\<close>, the empty path and \<open>/a/zzz\<close> match
  nothing; on each of them \<^verbatim>\<open>findRedirect\<close> panics: after the last miss the slice of
  segments is empty and the code reads its element at index \<open>-1\<close>.
\<close>

theorem findRedirect_no_match_panics:
  "findRedirect example_lib (request ''/nope'' [])
      (one_shortcut ''a/b'' (example_com ''/x'') configured) (world_at 2000 (sheets_ok [])) = Panic
   \<and> findRedirect example_lib (request [] [])
      (one_shortcut ''a/b'' (example_com ''/x'') configured) (world_at 2000 (sheets_ok [])) = Panic
   \<and> findRedirect example_lib (request ''/a/zzz'' [])
      (one_shortcut ''a/b'' (example_com ''/x'') configured) (world_at 2000 (sheets_ok [])) = Panic"
  by (simp add: run_defs example_defs)

text \<open>
  C2. The claim is that the unmatched trailing segments are appended to the destination:
  \<open>a/b/c\<close> against the shortcut \<open>a/b\<close> with destination \<^verbatim>\<open>https://example.com/x\<close> gives
  \<^verbatim>\<open>https://example.com/x/c\<close>. The code returns the pointer to the destination with the
  path \<open>/x/b\<close>: after the miss on \<open>a/b/c\<close> it shortens the slice to \<open>a/b\<close> and then
  puts the last element of the shortened slice, \<open>b\<close>, on the discard list.
\<close>

theorem findRedirect_appends_wrong_segment:
  "findRedirect example_lib (request ''/a/b/c'' [])
      (one_shortcut ''a/b'' (example_com ''/x'') configured) (world_at 2000 (sheets_ok []))
     = Return (Inr (Some 0), one_shortcut ''a/b'' (example_com ''/x/b'') configured,
               (world_at 2000 (sheets_ok []))\<lparr>clock_reads := 2\<rparr>)"
  by (simp add: run_defs example_defs)

text \<open>
  C3. The claim is that no resolution changes the destination URLs in the cache, so that
  the same path resolves to the same result twice. \<^verbatim>\<open>prepRedirect\<close> appends to the
  path of the object that the cache points to. Resolving \<open>/a/b/c\<close> twice within the
  TTL, with no refresh in between: the first resolution leaves the cached destination
  with the path \<open>/x/b\<close> instead of \<open>/x\<close>, and the second one returns the path
  \<open>/x/b/b\<close>.
\<close>

theorem findRedirect_twice_differs:
  "findRedirect example_lib (request ''/a/b/c'' [])
      (one_shortcut ''a/b'' (example_com ''/x'') configured) (world_at 2000 (sheets_ok []))
     = Return (Inr (Some 0), one_shortcut ''a/b'' (example_com ''/x/b'') configured,
               (world_at 2000 (sheets_ok []))\<lparr>clock_reads := 2\<rparr>)
   \<and> findRedirect example_lib (request ''/a/b/c'' [])
      (one_shortcut ''a/b'' (example_com ''/x/b'') configured)
      ((world_at 2000 (sheets_ok []))\<lparr>clock_reads := 2\<rparr>)
     = Return (Inr (Some 0), one_shortcut ''a/b'' (example_com ''/x/b/b'') configured,
               (world_at 2000 (sheets_ok []))\<lparr>clock_reads := 4\<rparr>)
   \<and> urls (one_shortcut ''a/b'' (example_com ''/x/b'') configured)
        \<noteq> urls (one_shortcut ''a/b'' (example_com ''/x'') configured)"
  by (simp add: run_defs example_defs)

text \<open>
  C4. The claim is that the parameters of the request are added to those of the
  destination: \<open>a/b/c\<close> with the query \<open>q=1\<close> against the shortcut \<open>a\<close> with
  destination \<^verbatim>\<open>https://example.com\<close> gives \<^verbatim>\<open>https://example.com/b/c?q=1\<close>. The code
  returns the destination with the path \<open>/a/b\<close> and an empty query, although the request
  has the parameter \<open>q\<close>: the values that received the request's parameters are dropped
  and a fresh \<^verbatim>\<open>base.Query()\<close> is encoded.
\<close>

theorem findRedirect_drops_query:
  "findRedirect example_lib (request ''/a/b/c'' ''q=1'')
      (one_shortcut ''a'' (example_com []) configured) (world_at 2000 (sheets_ok []))
     = Return (Inr (Some 0), one_shortcut ''a'' (example_com ''/a/b'') configured,
               (world_at 2000 (sheets_ok []))\<lparr>clock_reads := 3\<rparr>)
   \<and> RawQuery (example_com ''/a/b'') = []
   \<and> URL_Query example_lib (request ''/a/b/c'' ''q=1'') = [(''q'', [''1''])]"
  by (simp add: run_defs example_defs)

text \<open>
  C10. The claim is that a request path which equals a stored shortcut up to letter case
  finds that shortcut's destination. The sheet has the shortcut \<open>Git\<close>, which
  \<^verbatim>\<open>urlMap\<close> stores as \<open>git\<close>. The request \<open>/Git\<close> is looked up as it is written:
  \<^verbatim>\<open>Get\<close> finds nothing for \<open>Git\<close> and \<^verbatim>\<open>findRedirect\<close> ends in the panic of a
  miss, while the request \<open>/git\<close> finds the destination.
\<close>

theorem findRedirect_case_sensitive:
  "findRedirect example_lib (request ''/Git'' [])
      (initial_memory configured) (world_at day (sheets_ok git_sheet)) = Panic
   \<and> Get example_lib ''Git'' (initial_memory configured) (world_at day (sheets_ok git_sheet))
     = Return (Inr None, git_memory (day + 1),
               (world_at day (sheets_ok git_sheet))\<lparr>clock_reads := 2, queries := 1\<rparr>)
   \<and> findRedirect example_lib (request ''/git'' [])
      (initial_memory configured) (world_at day (sheets_ok git_sheet))
     = Return (Inr (Some 0), git_memory (day + 1),
               (world_at day (sheets_ok git_sheet))\<lparr>clock_reads := 2, queries := 1\<rparr>)"
  by (simp add: run_defs example_defs git_sheet_def git_memory_def day_def)

end
